theory Spec2Isabelle
  imports Main
begin

section \<open>The host language: thrown values, call outcomes, results of effects\<close>

text \<open>
  \<^verbatim>\<open>packages/sql-sqlite-expo/src/SqliteClient.ts\<close> is TypeScript on top of the Effect
  runtime. Two kinds of failure have to be kept apart:
  \<^item> a JavaScript call either returns a value or throws (\<open>js\<close>);
  \<^item> an Effect value, when it is run, ends in an exit: success, a recoverable failure of
    the typed error channel, or a defect (\<open>Effect.die\<close>).
\<close>

datatype exn = JsError string

datatype 'a js = Returns 'a | Throws exn

datatype defect = RuntimeException string | Thrown exn

text \<open>
  \<open>Interrupted\<close> is the exit of a cancelled fibre. \<open>Suspended\<close> is not an exit of the
  runtime: it marks a fibre that is parked (waiting for a permit) when the run of the model
  ends, so that waiting is a value and not a missing result.
\<close>

datatype ('e, 'a) exit = Success 'a | Failure 'e | Die defect | Interrupted | Suspended

text \<open>
  Modelled from the spec: \<open>Effect.succeed\<close>, \<open>Effect.map\<close> and \<open>Effect.dieMessage\<close> of the
  \<open>effect\<close> package, which is not among the sources. The methods of the connection build
  their effects from these three alone, and such an effect touches no state, so it is
  denoted by the exit it produces when it is run: \<open>succeed\<close> succeeds, \<open>map\<close> changes the
  value of a success, and \<open>dieMessage\<close> is the fatal, defect-class failure of the spec
  (sections 4.3 and 7), distinct from a recoverable error.
\<close>

definition Effect_succeed :: "'a \<Rightarrow> ('e, 'a) exit" where
  "Effect_succeed a = Success a"

fun Effect_map :: "('e, 'a) exit \<Rightarrow> ('a \<Rightarrow> 'b) \<Rightarrow> ('e, 'b) exit" where
  "Effect_map (Success a) f = Success (f a)"
| "Effect_map (Failure e) f = Failure e"
| "Effect_map (Die d) f = Die d"
| "Effect_map Interrupted f = Interrupted"
| "Effect_map Suspended f = Suspended"

definition Effect_dieMessage :: "string \<Rightarrow> ('e, 'a) exit" where
  "Effect_dieMessage message = Die (RuntimeException message)"

section \<open>The embedded engine (expo-sqlite)\<close>

text \<open>
  A result row is a JavaScript object. It is modelled by the list of its own enumerable
  properties in the order in which \<open>Object.keys\<close> enumerates them. A value \<open>'v\<close> is any
  JavaScript value (the engine types its rows as \<open>any\<close>).

  \<open>row[column]\<close> is a property read, and a read walks the prototype chain: an own property
  wins; a name the row lacks is looked up among the properties the row inherits (for a
  plain object the members of \<open>Object.prototype\<close>: \<open>toString\<close>, \<open>constructor\<close>, \<open>valueOf\<close>
  and so on); a name found in neither reads as \<open>undefined\<close>, which is \<open>None\<close>.
\<close>

type_synonym 'v row = "(string \<times> 'v) list"

definition Object_keys :: "'v row \<Rightarrow> string list" where
  "Object_keys row = map fst row"

definition getProperty :: "'v row \<Rightarrow> 'v row \<Rightarrow> string \<Rightarrow> 'v option" where
  "getProperty prototype row column =
     (case map_of row column of
        Some v \<Rightarrow> Some v
      | None \<Rightarrow> map_of prototype column)"

text \<open>
  The three calls of \<open>expo-sqlite\<close> the client uses. The library is not part of the
  repository, so it is a parameter: every call may throw, and every call may change the
  state \<open>'eng\<close> of the native engine. \<open>'h\<close> is a database handle, \<open>'p\<close> a bind parameter
  (\<open>Statement.Primitive\<close>). The engine creates the row objects, so what they inherit is the
  engine's too: \<open>rowPrototype\<close> lists the properties on the prototype chain of a returned
  row, each with the value a read of it yields.
\<close>

record ('eng, 'h, 'p, 'v) expo_sqlite =
  openDatabaseSync :: "string \<Rightarrow> 'eng \<Rightarrow> (exn + 'h) \<times> 'eng"
  closeSync :: "'h \<Rightarrow> 'eng \<Rightarrow> (exn + unit) \<times> 'eng"
  getAllSync :: "'h \<Rightarrow> string \<Rightarrow> 'p list \<Rightarrow> 'eng \<Rightarrow> (exn + 'v row list) \<times> 'eng"
  rowPrototype :: "'v row"

section \<open>The connection (lines 110 to 139)\<close>

text \<open>
  \<^verbatim>\<open>
  const run = (sql: string, params: ReadonlyArray<Statement.Primitive> = []) =>
    Effect.succeed(db.getAllSync<any>(sql, ...(params as SQLiteVariadicBindParams)))
  \<close>
  The argument of \<open>Effect.succeed\<close> is evaluated when \<open>run\<close> is called: the engine is
  queried at the call, and when it throws, \<open>run\<close> throws and returns no effect at all.
  \<open>params\<close> is \<open>None\<close> when the caller passes \<open>undefined\<close>.
\<close>

definition run ::
  "('eng, 'h, 'p, 'v) expo_sqlite \<Rightarrow> 'h \<Rightarrow> string \<Rightarrow> 'p list option \<Rightarrow> 'eng
    \<Rightarrow> ('e, 'v row list) exit js \<times> 'eng" where
  "run expo db sql params en =
     (case getAllSync expo db sql (case params of None \<Rightarrow> [] | Some ps \<Rightarrow> ps) en of
        (Inl e, en') \<Rightarrow> (Throws e, en')
      | (Inr rows, en') \<Rightarrow> (Returns (Effect_succeed rows), en'))"

text \<open>A call whose argument threw is not made: \<open>f(run(...))\<close>.\<close>

fun js_apply :: "('a \<Rightarrow> 'b) \<Rightarrow> 'a js \<times> 'eng \<Rightarrow> 'b js \<times> 'eng" where
  "js_apply f (Returns a, en) = (Returns (f a), en)"
| "js_apply f (Throws e, en) = (Throws e, en)"

text \<open>
  \<^verbatim>\<open>
  execute(sql, params, transformRows) {
    return transformRows
      ? Effect.map(run(sql, params), transformRows)
      : run(sql, params)
  }
  \<close>
\<close>

definition execute ::
  "('eng, 'h, 'p, 'v) expo_sqlite \<Rightarrow> 'h \<Rightarrow> string \<Rightarrow> 'p list
    \<Rightarrow> ('v row list \<Rightarrow> 'v row list) option \<Rightarrow> 'eng \<Rightarrow> ('e, 'v row list) exit js \<times> 'eng" where
  "execute expo db sql params transformRows en =
     (case transformRows of
        Some f \<Rightarrow> js_apply (\<lambda>eff. Effect_map eff f) (run expo db sql (Some params) en)
      | None \<Rightarrow> run expo db sql (Some params) en)"

definition executeRaw ::
  "('eng, 'h, 'p, 'v) expo_sqlite \<Rightarrow> 'h \<Rightarrow> string \<Rightarrow> 'p list \<Rightarrow> 'eng
    \<Rightarrow> ('e, 'v row list) exit js \<times> 'eng" where
  "executeRaw expo db sql params en = run expo db sql (Some params) en"

text \<open>
  The callback of \<open>executeValues\<close>:
  \<^verbatim>\<open>
  (results) => {
    if (results.length === 0) { return [] }
    const columns = Object.keys(results[0])
    return results.map((row) => columns.map((column) => row[column]))
  }
  \<close>
  \<open>results ! 0\<close> is read only when the list is not empty. The rows are the engine's, so
  \<open>row[column]\<close> reads through the prototype the engine gave them.
\<close>

definition valuesOf :: "'v row \<Rightarrow> 'v row list \<Rightarrow> 'v option list list" where
  "valuesOf prototype results =
     (if length results = 0 then []
      else (let columns = Object_keys (results ! 0)
            in map (\<lambda>row. map (\<lambda>column. getProperty prototype row column) columns) results))"

definition executeValues ::
  "('eng, 'h, 'p, 'v) expo_sqlite \<Rightarrow> 'h \<Rightarrow> string \<Rightarrow> 'p list \<Rightarrow> 'eng
    \<Rightarrow> ('e, 'v option list list) exit js \<times> 'eng" where
  "executeValues expo db sql params en =
     js_apply (\<lambda>eff. Effect_map eff (valuesOf (rowPrototype expo)))
       (run expo db sql (Some params) en)"

text \<open>
  \<^verbatim>\<open>executeUnprepared(sql, params, transformRows) { return this.execute(sql, params, transformRows) }\<close>
  The method is called on the connection object, so \<open>this.execute\<close> is the \<open>execute\<close> above,
  over the same handle.
\<close>

definition executeUnprepared ::
  "('eng, 'h, 'p, 'v) expo_sqlite \<Rightarrow> 'h \<Rightarrow> string \<Rightarrow> 'p list
    \<Rightarrow> ('v row list \<Rightarrow> 'v row list) option \<Rightarrow> 'eng \<Rightarrow> ('e, 'v row list) exit js \<times> 'eng" where
  "executeUnprepared expo db sql params transformRows en =
     execute expo db sql params transformRows en"

text \<open>
  \<^verbatim>\<open>executeStream() { return Effect.dieMessage("executeStream not implemented") }\<close>
  The method declares no parameter: whatever the caller passes is ignored, and the engine
  is not called.
\<close>

definition executeStream ::
  "('eng, 'h, 'p, 'v) expo_sqlite \<Rightarrow> 'h \<Rightarrow> string \<Rightarrow> 'p list
    \<Rightarrow> ('v row list \<Rightarrow> 'v row list) option \<Rightarrow> 'eng \<Rightarrow> ('e, 'v row list) exit js \<times> 'eng" where
  "executeStream expo db sql params transformRows en =
     (Returns (Effect_dieMessage ''executeStream not implemented''), en)"

section \<open>The casing transforms (lines 212 to 229)\<close>

text \<open>
  Strings are lists of 8-bit characters. The ASCII range is where \<open>toLowerCase\<close>,
  \<open>toUpperCase\<close> and the classes \<open>[A-Z]\<close>, \<open>[a-z]\<close> are modelled exactly; a character
  outside ASCII is left as it is by the two case mappings of the model.
\<close>

definition isUpper :: "char \<Rightarrow> bool" where
  "isUpper c = (65 \<le> (of_char c :: nat) \<and> (of_char c :: nat) \<le> 90)"

definition isLower :: "char \<Rightarrow> bool" where
  "isLower c = (97 \<le> (of_char c :: nat) \<and> (of_char c :: nat) \<le> 122)"

definition isSeparator :: "char \<Rightarrow> bool" where
  "isSeparator c = (c = CHR ''-'' \<or> c = CHR ''_'')"

definition toLowerCase_char :: "char \<Rightarrow> char" where
  "toLowerCase_char c = (if isUpper c then char_of (of_char c + 32 :: nat) else c)"

definition toUpperCase_char :: "char \<Rightarrow> char" where
  "toUpperCase_char c = (if isLower c then char_of (of_char c - 32 :: nat) else c)"

definition toLowerCase :: "string \<Rightarrow> string" where
  "toLowerCase str = map toLowerCase_char str"

definition toUpperCase :: "string \<Rightarrow> string" where
  "toUpperCase str = map toUpperCase_char str"

text \<open>\<open>group.replace(/[-_]/, "")\<close>: without the \<open>g\<close> flag only the first match goes.\<close>

fun removeFirstSeparator :: "string \<Rightarrow> string" where
  "removeFirstSeparator [] = []"
| "removeFirstSeparator (c # cs) = (if isSeparator c then cs else c # removeFirstSeparator cs)"

text \<open>
  \<open>str.replace(/([-_][a-z])/g, (group) => group.replace(/[-_]/, "").toUpperCase())\<close>:
  the scan goes from left to right, a match of two characters is replaced by the callback's
  result and the scan resumes behind it; any other character is copied.
\<close>

fun replaceSeparatorLetter :: "string \<Rightarrow> string" where
  "replaceSeparatorLetter (c # d # rest) =
     (if isSeparator c \<and> isLower d
      then toUpperCase (removeFirstSeparator [c, d]) @ replaceSeparatorLetter rest
      else c # replaceSeparatorLetter (d # rest))"
| "replaceSeparatorLetter [c] = [c]"
| "replaceSeparatorLetter [] = []"

definition snakeToCamel :: "string \<Rightarrow> string" where
  "snakeToCamel str = replaceSeparatorLetter (toLowerCase str)"

text \<open>\<^verbatim>\<open>str.replace(/[A-Z]/g, (letter) => `_${letter.toLowerCase()}`)\<close>\<close>

definition camelToSnake :: "string \<Rightarrow> string" where
  "camelToSnake str =
     concat (map (\<lambda>letter. if isUpper letter then CHR ''_'' # toLowerCase [letter] else [letter]) str)"

definition isAsciiLetter :: "char \<Rightarrow> bool" where
  "isAsciiLetter c = (isUpper c \<or> isLower c)"

section \<open>Opening and closing the database (lines 82 to 109)\<close>

text \<open>
  The state the client works on. \<open>dbRef\<close> is the module-level \<^verbatim>\<open>let dbRef: unknown\<close>
  (\<open>None\<close> is \<open>undefined\<close>, its value before the first assignment); \<open>engine\<close> is the state of
  the native engine. The other fields belong to the running fibre and to lines 142 to
  154: the permits the semaphore has left, the finalizers registered in the
  enclosing scope (the latest first), the fibre's interruptibility flag, and the clock and
  the arrival time of an interruption signal, which let a theorem range over every moment
  at which the fibre can be cancelled.
\<close>

datatype 'h finalizer = CloseDatabase 'h | Release nat

record ('eng, 'h) world =
  dbRef :: "bool option"
  engine :: 'eng
  free :: nat
  finalizers :: "'h finalizer list"
  interruptible :: bool
  clock :: nat
  interruptAt :: "nat option"

type_synonym ('eng, 'h, 'e, 'a) effect = "('eng, 'h) world \<Rightarrow> ('e, 'a) exit \<times> ('eng, 'h) world"

text \<open>\<open>if (dbRef)\<close>: \<open>undefined\<close> and \<open>false\<close> are falsy, \<open>true\<close> is truthy.\<close>

definition truthy :: "bool option \<Rightarrow> bool" where
  "truthy v = (case v of None \<Rightarrow> False | Some b \<Rightarrow> b)"

text \<open>
  The options of \<open>make\<close>. \<open>spanAttributes\<close>, which only labels telemetry spans, is left out.
\<close>

record SqliteClientConfig =
  database :: string
  transformResultNames :: "(string \<Rightarrow> string) option"
  transformQueryNames :: "(string \<Rightarrow> string) option"

text \<open>
  The connection object closes over \<open>db\<close>; its methods are the functions of the previous
  section applied to that handle.
\<close>

datatype 'h connection = Connection 'h

text \<open>
  The thunk of the finalizer:
  \<^verbatim>\<open>
  () => {
    try { db.closeSync() } catch { /* nothing to do */ }
    dbRef = false
  }
  \<close>
\<close>

definition closeDatabase ::
  "('eng, 'h, 'p, 'v) expo_sqlite \<Rightarrow> 'h \<Rightarrow> ('eng, 'h) world \<Rightarrow> unit js \<times> ('eng, 'h) world" where
  "closeDatabase expo db w =
     (let w1 = (case closeSync expo db (engine w) of
                  (Inl e, en') \<Rightarrow> w\<lparr>engine := en'\<rparr>
                | (Inr u, en') \<Rightarrow> w\<lparr>engine := en'\<rparr>)
      in (Returns (), w1\<lparr>dbRef := Some False\<rparr>))"

section \<open>The runtime the client runs on\<close>

text \<open>
  Modelled from the spec: the combinators of the \<open>effect\<close> package that the client calls
  on fibres (\<open>Effect.succeed\<close>, \<open>Effect.sync\<close>, \<open>Effect.flatMap\<close>, \<open>Effect.zipRight\<close>,
  \<open>Effect.tap\<close>, \<open>Effect.as\<close>, \<open>Effect.uninterruptibleMask\<close>, \<open>Effect.scope\<close>,
  \<open>Effect.addFinalizer\<close>, \<open>Scope.addFinalizer\<close>, \<open>Effect.scoped\<close>, \<open>Effect.makeSemaphore\<close>
  with \<open>take\<close>, \<open>release\<close> and \<open>withPermits\<close>) are not among the sources. Every definition
  of this section stands for one of them and follows the spec's sections 3 to 5 and 9: the
  permit is an integer counter, acquired and released; waiting for it is the only
  suspension point, and a waiter cancelled before it acquires never has the permit; a
  release registered against a scope runs on every exit of the scope; a masked block
  disables cancellation, and re-enables it where the block says so.

  An effect is run by one fibre, one instruction at a time. An instruction that starts
  while the fibre is interruptible and the interruption signal has arrived is not run:
  the fibre ends with \<open>Interrupted\<close>. The signal arrives at the clock value \<open>interruptAt\<close>,
  if at all, so a statement about every world is a statement about every moment of
  cancellation.
\<close>

definition interrupted :: "('eng, 'h) world \<Rightarrow> bool" where
  "interrupted w = (case interruptAt w of None \<Rightarrow> False | Some k \<Rightarrow> k \<le> clock w)"

definition instruction :: "('eng, 'h, 'e, 'a) effect \<Rightarrow> ('eng, 'h, 'e, 'a) effect" where
  "instruction f w =
     (if interruptible w \<and> interrupted w then (Interrupted, w)
      else f (w\<lparr>clock := Suc (clock w)\<rparr>))"

text \<open>
  Modelled from the spec: \<open>Effect.succeed\<close> of the \<open>effect\<close> package, as an instruction of
  a fibre (the acquirer runs \<open>Effect.succeed(connection)\<close> under the permit).
\<close>

definition succeed :: "'a \<Rightarrow> ('eng, 'h, 'e, 'a) effect" where
  "succeed a = instruction (\<lambda>w. (Success a, w))"

text \<open>
  Modelled from the spec: \<open>Effect.sync(thunk)\<close> of the \<open>effect\<close> package. The thunk is run as
  one instruction; a thunk that throws makes the effect die.
\<close>

definition Effect_sync ::
  "(('eng, 'h) world \<Rightarrow> 'a js \<times> ('eng, 'h) world) \<Rightarrow> ('eng, 'h, 'e, 'a) effect" where
  "Effect_sync thunk =
     instruction (\<lambda>w. case thunk w of
        (Returns a, w') \<Rightarrow> (Success a, w')
      | (Throws e, w') \<Rightarrow> (Die (Thrown e), w'))"

text \<open>
  Modelled from the spec: \<open>Effect.flatMap\<close>, \<open>Effect.as\<close>, \<open>Effect.zipRight\<close> and \<open>Effect.tap\<close>
  of the \<open>effect\<close> package. The second effect runs when the first has succeeded; any other
  exit of the first is the exit of the whole.
\<close>

definition flatMap ::
  "('eng, 'h, 'e, 'a) effect \<Rightarrow> ('a \<Rightarrow> ('eng, 'h, 'e, 'b) effect) \<Rightarrow> ('eng, 'h, 'e, 'b) effect" where
  "flatMap self f w =
     (case self w of
        (Success a, w') \<Rightarrow> f a w'
      | (Failure e, w') \<Rightarrow> (Failure e, w')
      | (Die d, w') \<Rightarrow> (Die d, w')
      | (Interrupted, w') \<Rightarrow> (Interrupted, w')
      | (Suspended, w') \<Rightarrow> (Suspended, w'))"

definition Effect_as :: "('eng, 'h, 'e, 'a) effect \<Rightarrow> 'b \<Rightarrow> ('eng, 'h, 'e, 'b) effect" where
  "Effect_as self b = flatMap self (\<lambda>_ w. (Success b, w))"

definition zipRight ::
  "('eng, 'h, 'e, 'a) effect \<Rightarrow> ('eng, 'h, 'e, 'b) effect \<Rightarrow> ('eng, 'h, 'e, 'b) effect" where
  "zipRight self that = flatMap self (\<lambda>_. that)"

definition tap ::
  "('eng, 'h, 'e, 'a) effect \<Rightarrow> ('a \<Rightarrow> ('eng, 'h, 'e, 'b) effect) \<Rightarrow> ('eng, 'h, 'e, 'a) effect" where
  "tap self f = flatMap self (\<lambda>a. Effect_as (f a) a)"

text \<open>
  Modelled from the spec: \<open>Effect.uninterruptibleMask\<close> of the \<open>effect\<close> package, the masked
  block of the spec's section 9.
  \<open>Effect.uninterruptibleMask((restore) => body)\<close> runs the body with the flag off and puts
  the flag back afterwards; \<open>restore(effect)\<close> runs \<open>effect\<close> under the flag the fibre had
  outside the mask. The body receives that flag, and \<open>restore\<close> is applied to it (a bound
  \<open>restore\<close> could be used at one result type only).
\<close>

definition withInterruptible ::
  "bool \<Rightarrow> ('eng, 'h, 'e, 'a) effect \<Rightarrow> ('eng, 'h, 'e, 'a) effect" where
  "withInterruptible flag self w =
     (case self (w\<lparr>interruptible := flag\<rparr>) of
        (r, w') \<Rightarrow> (r, w'\<lparr>interruptible := interruptible w\<rparr>))"

definition restore :: "bool \<Rightarrow> ('eng, 'h, 'e, 'a) effect \<Rightarrow> ('eng, 'h, 'e, 'a) effect" where
  "restore outer self = withInterruptible outer self"

definition uninterruptibleMask ::
  "(bool \<Rightarrow> ('eng, 'h, 'e, 'a) effect) \<Rightarrow> ('eng, 'h, 'e, 'a) effect" where
  "uninterruptibleMask body w = withInterruptible False (body (interruptible w)) w"

text \<open>
  Modelled from the spec: \<open>Effect.ensuring\<close> of the \<open>effect\<close> package, by which
  \<open>withPermits\<close> releases on success, failure and cancellation alike. Once \<open>self\<close> has
  ended, however it ended, the finalizer runs with the flag off. A fibre still parked
  inside \<open>self\<close> has not ended.
\<close>

definition ensuring ::
  "('eng, 'h, 'e, 'a) effect \<Rightarrow> ('eng, 'h, 'e, unit) effect \<Rightarrow> ('eng, 'h, 'e, 'a) effect" where
  "ensuring self fin w =
     (case self w of
        (Suspended, w') \<Rightarrow> (Suspended, w')
      | (r, w') \<Rightarrow>
          (case withInterruptible False fin w' of
             (Success u, w'') \<Rightarrow> (r, w'')
           | (Failure e, w'') \<Rightarrow> (Failure e, w'')
           | (Die d, w'') \<Rightarrow> (Die d, w'')
           | (Interrupted, w'') \<Rightarrow> (Interrupted, w'')
           | (Suspended, w'') \<Rightarrow> (Suspended, w'')))"

subsection \<open>The semaphore\<close>

text \<open>
  Modelled from the spec: the semaphore of the \<open>effect\<close> package, the permit counter of the
  spec's section 3.
  \<open>Effect.makeSemaphore(permits)\<close> sets the counter; \<open>take(n)\<close> waits until \<open>n\<close> permits are
  free and takes them; \<open>release(n)\<close> gives them back; \<open>withPermits(n)(self)\<close> takes, runs
  \<open>self\<close> and releases when \<open>self\<close> has ended, the wait and \<open>self\<close> under the caller's flag.
\<close>

definition makeSemaphore :: "nat \<Rightarrow> ('eng, 'h, 'e, unit) effect" where
  "makeSemaphore permits = instruction (\<lambda>w. (Success (), w\<lparr>free := permits\<rparr>))"

definition semaphore_take :: "nat \<Rightarrow> ('eng, 'h, 'e, nat) effect" where
  "semaphore_take n =
     instruction (\<lambda>w. if n \<le> free w then (Success n, w\<lparr>free := free w - n\<rparr>) else (Suspended, w))"

definition semaphore_release :: "nat \<Rightarrow> ('eng, 'h, 'e, unit) effect" where
  "semaphore_release n = instruction (\<lambda>w. (Success (), w\<lparr>free := free w + n\<rparr>))"

definition semaphore_withPermits ::
  "nat \<Rightarrow> ('eng, 'h, 'e, 'a) effect \<Rightarrow> ('eng, 'h, 'e, 'a) effect" where
  "semaphore_withPermits n self =
     uninterruptibleMask (\<lambda>outer.
       flatMap (restore outer (semaphore_take n))
         (\<lambda>permits. ensuring (restore outer self) (semaphore_release permits)))"

subsection \<open>Scopes\<close>

text \<open>
  Modelled from the spec: the scopes of the \<open>effect\<close> package, the scoped release of the
  spec's sections 4.1 and 9.
  The fibre has one enclosing scope. \<open>Effect.scope\<close> yields it, \<open>Scope.addFinalizer\<close> and
  \<open>Effect.addFinalizer\<close> register a finalizer in it, and closing it runs the finalizers,
  the latest first, each with the flag off, whatever the exit the scope is closed with.
  The finalizers of this client are the two of the source: the thunk that closes the
  database and \<open>semaphore.release(1)\<close>.
\<close>

datatype scope = EnclosingScope

definition Effect_scope :: "('eng, 'h, 'e, scope) effect" where
  "Effect_scope = instruction (\<lambda>w. (Success EnclosingScope, w))"

definition Scope_addFinalizer :: "scope \<Rightarrow> 'h finalizer \<Rightarrow> ('eng, 'h, 'e, unit) effect" where
  "Scope_addFinalizer scope fin =
     instruction (\<lambda>w. (Success (), w\<lparr>finalizers := fin # finalizers w\<rparr>))"

definition Effect_addFinalizer :: "'h finalizer \<Rightarrow> ('eng, 'h, 'e, unit) effect" where
  "Effect_addFinalizer fin = flatMap Effect_scope (\<lambda>scope. Scope_addFinalizer scope fin)"

fun finalizerEffect ::
  "('eng, 'h, 'p, 'v) expo_sqlite \<Rightarrow> 'h finalizer \<Rightarrow> ('eng, 'h, 'e, unit) effect" where
  "finalizerEffect expo (CloseDatabase db) = Effect_sync (closeDatabase expo db)"
| "finalizerEffect expo (Release n) = semaphore_release n"

fun runFinalizers ::
  "('eng, 'h, 'p, 'v) expo_sqlite \<Rightarrow> 'h finalizer list \<Rightarrow> ('eng, 'h) world \<Rightarrow> ('eng, 'h) world" where
  "runFinalizers expo [] w = w"
| "runFinalizers expo (fin # fins) w =
     runFinalizers expo fins
       (snd (withInterruptible False (finalizerEffect expo fin :: ('eng, 'h, unit, unit) effect) w))"

definition Scope_close ::
  "('eng, 'h, 'p, 'v) expo_sqlite \<Rightarrow> ('e, 'a) exit \<Rightarrow> ('eng, 'h) world \<Rightarrow> ('eng, 'h) world" where
  "Scope_close expo ex w = runFinalizers expo (finalizers w) (w\<lparr>finalizers := []\<rparr>)"

text \<open>
  Modelled from the spec: \<open>Effect.scoped\<close> of the \<open>effect\<close> package, the lifetime of a
  transaction. It runs \<open>self\<close> in a scope of its own and closes that scope with the exit of
  \<open>self\<close>. While the fibre is parked inside \<open>self\<close> the scope stays open.
\<close>

definition scoped ::
  "('eng, 'h, 'p, 'v) expo_sqlite \<Rightarrow> ('eng, 'h, 'e, 'a) effect \<Rightarrow> ('eng, 'h, 'e, 'a) effect" where
  "scoped expo self w =
     (case self (w\<lparr>finalizers := []\<rparr>) of
        (Suspended, w') \<Rightarrow> (Suspended, w')
      | (r, w') \<Rightarrow> (r, (Scope_close expo r w')\<lparr>finalizers := finalizers w\<rparr>))"

text \<open>
  Modelled from the spec: how the runtime of the \<open>effect\<close> package treats a method of the
  connection that a fibre calls from a callback (the caller's unit of work of the spec's
  section 4.1). The engine state is the world's, an exception thrown by the call ends the
  fibre with a defect, and a returned effect ends with the exit that denotes it.
\<close>

definition callMethod ::
  "('eng \<Rightarrow> ('e, 'a) exit js \<times> 'eng) \<Rightarrow> ('eng, 'h, 'e, 'a) effect" where
  "callMethod method w =
     (case method (engine w) of
        (Throws e, en') \<Rightarrow> (Die (Thrown e), w\<lparr>engine := en'\<rparr>)
      | (Returns eff, en') \<Rightarrow> (eff, w\<lparr>engine := en'\<rparr>))"

section \<open>The client (lines 87 to 174)\<close>

text \<open>
  \<^verbatim>\<open>
  const makeConnection = Effect.gen(function*() {
    if (dbRef) return
    dbRef = true
    const db = ExpoSqlite.openDatabaseSync(options.database)
    yield* Effect.addFinalizer(() => Effect.sync(() => { ... }))
    const run = ...
    return identity<SqliteConnection>({ ... })
  })
  \<close>
  The generator runs up to its first \<open>yield*\<close> in one go. The early \<open>return\<close> yields
  \<open>undefined\<close> (\<open>None\<close>); an exception of \<open>openDatabaseSync\<close> leaves the generator and is a
  defect of the effect.
\<close>

definition makeConnection ::
  "('eng, 'h, 'p, 'v) expo_sqlite \<Rightarrow> SqliteClientConfig
    \<Rightarrow> ('eng, 'h, 'e, 'h connection option) effect" where
  "makeConnection expo options w =
     (if truthy (dbRef w) then (Success None, w)
      else (let w1 = w\<lparr>dbRef := Some True\<rparr>
            in case openDatabaseSync expo (database options) (engine w1) of
                 (Inl e, en') \<Rightarrow> (Die (Thrown e), w1\<lparr>engine := en'\<rparr>)
               | (Inr db, en') \<Rightarrow>
                   flatMap (Effect_addFinalizer (CloseDatabase db))
                     (\<lambda>_ w2. (Success (Some (Connection db)), w2))
                     (w1\<lparr>engine := en'\<rparr>)))"

text \<open>
  \<^verbatim>\<open>
  const acquirer = semaphore.withPermits(1)(Effect.succeed(connection))
  const transactionAcquirer = Effect.uninterruptibleMask((restore) =>
    Effect.as(
      Effect.zipRight(
        restore(semaphore.take(1)),
        Effect.tap(Effect.scope, (scope) => Scope.addFinalizer(scope, semaphore.release(1)))
      ),
      connection
    )
  )
  \<close>
\<close>

definition acquirer :: "'c \<Rightarrow> ('eng, 'h, 'e, 'c) effect" where
  "acquirer connection = semaphore_withPermits 1 (succeed connection)"

definition transactionAcquirer :: "'c \<Rightarrow> ('eng, 'h, 'e, 'c) effect" where
  "transactionAcquirer connection =
     uninterruptibleMask (\<lambda>outer.
       Effect_as
         (zipRight
            (restore outer (semaphore_take 1))
            (tap Effect_scope (\<lambda>scope. Scope_addFinalizer scope (Release 1))))
         connection)"

text \<open>
  \<^verbatim>\<open>
  const semaphore = yield* Effect.makeSemaphore(1)
  const connection = yield* makeConnection
  \<close>
  followed by the two acquirers, which \<open>make\<close> hands to \<open>Client.make\<close> (a function of
  \<open>@effect/sql\<close>, outside this file).
\<close>

definition make ::
  "('eng, 'h, 'p, 'v) expo_sqlite \<Rightarrow> SqliteClientConfig
    \<Rightarrow> ('eng, 'h, 'e,
         ('eng, 'h, 'e, 'h connection option) effect \<times> ('eng, 'h, 'e, 'h connection option) effect)
       effect" where
  "make expo options =
     flatMap (makeSemaphore 1) (\<lambda>semaphore.
       flatMap (makeConnection expo options) (\<lambda>connection w.
         (Success (acquirer connection, transactionAcquirer connection), w)))"

section \<open>Measures and sample data\<close>

text \<open>The permits that the release finalizers of a list give back.\<close>

fun released :: "'h finalizer list \<Rightarrow> nat" where
  "released [] = 0"
| "released (CloseDatabase db # fins) = released fins"
| "released (Release n # fins) = n + released fins"

text \<open>
  A small engine to evaluate the client on. Its state is the journal of the calls it has
  received; it knows two queries, rejects every other statement, and fails to close.
  In the result of the first query the second row lists the columns in another order and
  has a column more, and the third has a column less. The first row of the second query
  has a column named \<open>toString\<close>, which its second row lacks and inherits.
\<close>

datatype jsvalue = Number int | Function string

definition demoRows :: "jsvalue row list" where
  "demoRows = [[(''a'', Number 1), (''b'', Number 2)],
               [(''b'', Number 4), (''a'', Number 3), (''c'', Number 5)],
               [(''a'', Number 6)]]"

definition demoRowsInherited :: "jsvalue row list" where
  "demoRowsInherited = [[(''toString'', Number 1)], [(''a'', Number 2)]]"

definition demoExpo :: "(string list, nat, int, jsvalue) expo_sqlite" where
  "demoExpo =
     \<lparr> openDatabaseSync = (\<lambda>path en. (Inr (length en), en @ [''open''])),
       closeSync = (\<lambda>db en. (Inl (JsError ''database is locked''), en @ [''close''])),
       getAllSync = (\<lambda>db sql params en.
          if sql = ''SELECT a, b FROM t'' then (Inr demoRows, en @ [sql])
          else if sql = ''SELECT 1 AS toString'' then (Inr demoRowsInherited, en @ [sql])
          else (Inl (JsError ''syntax error''), en @ [sql])),
       rowPrototype = [(''constructor'', Function ''Object''),
                       (''toString'', Function ''toString''),
                       (''valueOf'', Function ''valueOf'')] \<rparr>"

definition demoConfig :: SqliteClientConfig where
  "demoConfig = \<lparr> database = ''app.db'', transformResultNames = None, transformQueryNames = None \<rparr>"

definition demoWorld :: "(string list, nat) world" where
  "demoWorld = \<lparr> dbRef = None, engine = [], free = 1, finalizers = [],
                 interruptible = True, clock = 0, interruptAt = None \<rparr>"

section \<open>Helper facts\<close>

subsection \<open>Characters\<close>

lemma isLower_toLowerCase_char: "isUpper c \<Longrightarrow> isLower (toLowerCase_char c)"
  unfolding isUpper_def isLower_def toLowerCase_char_def by simp

lemma toUpperCase_toLowerCase_char: "isUpper c \<Longrightarrow> toUpperCase_char (toLowerCase_char c) = c"
  using isLower_toLowerCase_char[of c]
  unfolding toUpperCase_char_def
  by (simp add: isUpper_def isLower_def toLowerCase_char_def)

lemma isLower_not_separator: "isLower c \<Longrightarrow> \<not> isSeparator c"
  unfolding isLower_def isSeparator_def by auto

lemma isLower_not_isUpper: "isLower c \<Longrightarrow> \<not> isUpper c"
  unfolding isLower_def isUpper_def by auto

lemma camelToSnake_Cons:
  "camelToSnake (c # str) =
     (if isUpper c then [CHR ''_'', toLowerCase_char c] else [c]) @ camelToSnake str"
  by (simp add: camelToSnake_def toLowerCase_def)

lemma replaceSeparatorLetter_copy:
  "\<not> isSeparator c \<Longrightarrow> replaceSeparatorLetter (c # cs) = c # replaceSeparatorLetter cs"
  by (cases cs) simp_all

text \<open>The output of \<open>camelToSnake\<close> on letters is already in lower case.\<close>

lemma toLowerCase_camelToSnake:
  "\<forall>c \<in> set str. isAsciiLetter c \<Longrightarrow> toLowerCase (camelToSnake str) = camelToSnake str"
proof (induction str)
  case Nil
  then show ?case by (simp add: toLowerCase_def camelToSnake_def)
next
  case (Cons c str)
  then have ih: "toLowerCase (camelToSnake str) = camelToSnake str" by simp
  have underscore: "toLowerCase_char CHR ''_'' = CHR ''_''"
    by (simp add: toLowerCase_char_def isUpper_def)
  show ?case
  proof (cases "isUpper c")
    case True
    then have "toLowerCase_char (toLowerCase_char c) = toLowerCase_char c"
      using isLower_toLowerCase_char[of c] isLower_not_isUpper[of "toLowerCase_char c"]
      by (simp add: toLowerCase_char_def)
    with True underscore ih show ?thesis
      unfolding camelToSnake_Cons by (simp add: toLowerCase_def)
  next
    case False
    then have "toLowerCase_char c = c" by (simp add: toLowerCase_char_def)
    with False ih show ?thesis
      unfolding camelToSnake_Cons by (simp add: toLowerCase_def)
  qed
qed

text \<open>Every \<open>_x\<close> that \<open>camelToSnake\<close> wrote is read back as \<open>X\<close>.\<close>

lemma replaceSeparatorLetter_camelToSnake:
  "\<forall>c \<in> set str. isAsciiLetter c \<Longrightarrow> replaceSeparatorLetter (camelToSnake str) = str"
proof (induction str)
  case Nil
  then show ?case by (simp add: camelToSnake_def)
next
  case (Cons c str)
  then have ih: "replaceSeparatorLetter (camelToSnake str) = str" by simp
  show ?case
  proof (cases "isUpper c")
    case True
    have sep: "isSeparator CHR ''_''" by (simp add: isSeparator_def)
    from True sep ih show ?thesis
      unfolding camelToSnake_Cons
      by (simp add: isLower_toLowerCase_char toUpperCase_def toUpperCase_toLowerCase_char)
  next
    case False
    with Cons.prems have "isLower c" by (simp add: isAsciiLetter_def)
    then have "\<not> isSeparator c" by (rule isLower_not_separator)
    with False ih show ?thesis
      unfolding camelToSnake_Cons by (simp add: replaceSeparatorLetter_copy)
  qed
qed

subsection \<open>The permit\<close>

lemmas permit_defs =
  semaphore_withPermits_def uninterruptibleMask_def withInterruptible_def restore_def
  flatMap_def ensuring_def semaphore_take_def semaphore_release_def succeed_def
  instruction_def interrupted_def Effect_as_def zipRight_def tap_def Effect_scope_def
  Scope_addFinalizer_def

lemma interrupted_finalizers [simp]:
  "interrupted (w\<lparr>finalizers := fins\<rparr>) = interrupted w"
  by (simp add: interrupted_def split: option.splits)




lemma transactionAcquirer_takes:
  "\<not> (interruptible w \<and> interrupted w) \<Longrightarrow> 1 \<le> free w \<Longrightarrow>
   transactionAcquirer c w =
     (Success c, w\<lparr>clock := clock w + 3, free := free w - 1,
                   finalizers := Release 1 # finalizers w\<rparr>)"
  by (auto simp: transactionAcquirer_def permit_defs
      split: prod.splits exit.splits option.splits if_splits)

lemma transactionAcquirer_cancelled:
  "interruptible w \<and> interrupted w \<Longrightarrow> transactionAcquirer c w = (Interrupted, w)"
  by (auto simp: transactionAcquirer_def permit_defs
      split: prod.splits exit.splits option.splits if_splits)

lemma transactionAcquirer_waits:
  "\<not> (interruptible w \<and> interrupted w) \<Longrightarrow> free w = 0 \<Longrightarrow>
   transactionAcquirer c w = (Suspended, w\<lparr>clock := Suc (clock w)\<rparr>)"
  by (auto simp: transactionAcquirer_def permit_defs
      split: prod.splits exit.splits option.splits if_splits)

lemma finalizer_free:
  "free (snd (withInterruptible False (finalizerEffect expo fin) w)) = free w + released [fin]"
  by (cases fin)
     (auto simp: withInterruptible_def Effect_sync_def closeDatabase_def instruction_def
       semaphore_release_def Let_def split: prod.splits js.splits sum.splits)

lemma runFinalizers_free:
  "free (runFinalizers expo fins w) = free w + released fins"
proof (induction fins arbitrary: w)
  case Nil
  then show ?case by simp
next
  case (Cons fin fins)
  show ?case
    using finalizer_free[of expo fin w]
    by (cases fin) (simp_all add: Cons.IH)
qed

lemma Scope_close_free:
  "free (Scope_close expo ex w) = free w + released (finalizers w)"
  by (simp add: Scope_close_def runFinalizers_free)

text \<open>A statement touches the engine only, and its effect is never left parked.\<close>

lemma execute_in_world:
  "callMethod (execute expo db sql params transformRows) w = (r, w') \<Longrightarrow>
   r \<noteq> Suspended \<and> free w' = free w \<and> finalizers w' = finalizers w"
  by (auto simp: callMethod_def execute_def run_def Effect_succeed_def
      split: prod.splits js.splits sum.splits option.splits)

text \<open>
  A transaction of one statement: whenever the signal arrives, whatever the engine does,
  the permits are back once the transaction's scope has been closed.
\<close>

lemma transaction_never_leaks:
  "free (snd (scoped expo
      (flatMap (transactionAcquirer (Connection db))
         (\<lambda>conn. case conn of Connection h \<Rightarrow> callMethod (execute expo h sql params transformRows)))
      w)) = free w"
proof (cases "interruptible w \<and> interrupted w")
  case True
  then have "interruptible (w\<lparr>finalizers := []\<rparr>) \<and> interrupted (w\<lparr>finalizers := []\<rparr>)"
    by simp
  then show ?thesis
    by (simp add: scoped_def flatMap_def Scope_close_free transactionAcquirer_cancelled)
next
  case False
  then have ni: "\<not> (interruptible (w\<lparr>finalizers := []\<rparr>) \<and> interrupted (w\<lparr>finalizers := []\<rparr>))"
    by simp
  show ?thesis
  proof (cases "free w = 0")
    case True
    then have "free (w\<lparr>finalizers := []\<rparr>) = 0" by simp
    then show ?thesis
      by (simp add: scoped_def flatMap_def transactionAcquirer_waits[OF ni])
  next
    case False
    then have "1 \<le> free (w\<lparr>finalizers := []\<rparr>)" by simp
    then show ?thesis
      using False
      by (auto simp: scoped_def flatMap_def Scope_close_free
          transactionAcquirer_takes[OF ni]
          split: prod.splits exit.splits dest!: execute_in_world)
  qed
qed

text \<open>
  A transaction whose unit of work leaves the permit and the scope alone: whatever exit
  the unit of work ends with, closing the transaction's scope gives the permit back.
\<close>

lemma transaction_releases_on_exit:
  assumes "\<not> (interruptible w \<and> interrupted w)" and "1 \<le> free w"
    and "use c (w\<lparr>clock := clock w + 3, free := free w - 1, finalizers := [Release 1]\<rparr>) = (r, w2)"
    and "r \<noteq> Suspended" and "free w2 = free w - 1" and "finalizers w2 = [Release 1]"
  shows "scoped expo (flatMap (transactionAcquirer c) use) w =
           (r, w2\<lparr>clock := Suc (clock w2), free := free w, finalizers := finalizers w\<rparr>)"
proof -
  have ni: "\<not> (interruptible (w\<lparr>finalizers := []\<rparr>) \<and> interrupted (w\<lparr>finalizers := []\<rparr>))"
    using assms(1) by simp
  have one: "1 \<le> free (w\<lparr>finalizers := []\<rparr>)"
    using assms(2) by simp
  have body: "flatMap (transactionAcquirer c) use (w\<lparr>finalizers := []\<rparr>) = (r, w2)"
    using assms(3) by (simp add: flatMap_def transactionAcquirer_takes[OF ni one])
  have close: "Scope_close expo r w2 = w2\<lparr>clock := Suc (clock w2), free := free w, finalizers := []\<rparr>"
    using assms(2,5,6)
    by (simp add: Scope_close_def withInterruptible_def semaphore_release_def instruction_def)
  show ?thesis
    using body close assms(4) by (cases r) (simp_all add: scoped_def)
qed

subsection \<open>Opening\<close>

lemma makeConnection_sets_flag:
  "makeConnection expo options w = (Success (Some conn), w') \<Longrightarrow> truthy (dbRef w')"
  by (auto simp: makeConnection_def Effect_addFinalizer_def permit_defs truthy_def Let_def
      split: prod.splits exit.splits option.splits if_splits sum.splits)

text \<open>The client starts with one permit: \<open>make\<close> creates the semaphore with capacity 1.\<close>

lemma make_has_one_permit:
  "make expo options w = (Success acquirers, w') \<Longrightarrow> free w' = 1"
  by (auto simp: make_def makeSemaphore_def makeConnection_def Effect_addFinalizer_def
      permit_defs Let_def
      split: prod.splits exit.splits option.splits if_splits sum.splits)

lemma makeConnection_after_close:
  "\<not> truthy (dbRef w) \<Longrightarrow> fst (makeConnection expo options w) \<noteq> Success None"
  by (auto simp: makeConnection_def Effect_addFinalizer_def permit_defs Let_def
      split: prod.splits exit.splits option.splits if_splits sum.splits)

section \<open>The claims\<close>

subsection \<open>The two acquirers (C2, C3)\<close>




text \<open>
  C3. The transaction acquirer takes one permit and keeps it. Its three cases are
  exhaustive. If the fibre is not cancelled at the start of the wait and a permit is
  free, it ends with the connection, one permit less, and exactly one more finalizer in
  the enclosing scope, the release of that permit; the hypothesis speaks of the start of
  the wait only, so a signal that arrives at any later moment does not stop the
  registration. If no permit is free, it waits: the fibre is parked, with nothing taken
  and nothing registered. A fibre cancelled at the start of the wait ends interrupted with
  the world untouched. Closing a scope that holds the release gives the permit back.
  A transaction whose unit of work \<open>use\<close> ends with any exit \<open>r\<close> (success, failure, defect or
  interruption) and leaves the permit and the scope alone ends with \<open>r\<close>, and has the permit
  back and the outer scope as it was once its own scope has been closed; until then the
  permit is held, since \<open>use\<close> starts with one permit less. In particular a transaction
  of one statement never leaks: for every world (flag, arrival time of the signal,
  permits) and every engine, the permits after it are those before it.
\<close>

theorem transactionAcquirer_holds_permit_until_scope_ends:
  "(\<not> (interruptible w \<and> interrupted w) \<and> 1 \<le> free w \<longrightarrow>
      (transactionAcquirer c w :: ('e, 'c) exit \<times> ('eng, 'h) world) =
        (Success c, w\<lparr>clock := clock w + 3, free := free w - 1,
                      finalizers := Release 1 # finalizers w\<rparr>))
   \<and> (\<not> (interruptible w \<and> interrupted w) \<and> free w = 0 \<longrightarrow>
        (transactionAcquirer c w :: ('e, 'c) exit \<times> ('eng, 'h) world) =
          (Suspended, w\<lparr>clock := Suc (clock w)\<rparr>))
   \<and> (interruptible w \<and> interrupted w \<longrightarrow>
        (transactionAcquirer c w :: ('e, 'c) exit \<times> ('eng, 'h) world) = (Interrupted, w))
   \<and> free (Scope_close expo (ex :: ('e, 'a) exit) (w\<lparr>finalizers := [Release 1]\<rparr>)) = free w + 1
   \<and> (\<not> (interruptible w \<and> interrupted w) \<and> 1 \<le> free w
        \<and> (use c (w\<lparr>clock := clock w + 3, free := free w - 1, finalizers := [Release 1]\<rparr>)
              :: ('e, 'b) exit \<times> ('eng, 'h) world) = (r, w2)
        \<and> r \<noteq> Suspended \<and> free w2 = free w - 1 \<and> finalizers w2 = [Release 1] \<longrightarrow>
        scoped expo (flatMap (transactionAcquirer c) use) w =
          (r, w2\<lparr>clock := Suc (clock w2), free := free w, finalizers := finalizers w\<rparr>))
   \<and> free (snd (scoped expo
        (flatMap (transactionAcquirer (Connection db))
           (\<lambda>conn. case conn of Connection h \<Rightarrow>
              callMethod (execute expo h sql params transformRows)))
        w :: ('e, 'v row list) exit \<times> ('eng, 'h) world)) = free w"
proof -
  have on_exit: "scoped expo (flatMap (transactionAcquirer c) use) w =
          (r, w2\<lparr>clock := Suc (clock w2), free := free w, finalizers := finalizers w\<rparr>)"
    if "\<not> (interruptible w \<and> interrupted w)" and "1 \<le> free w"
      and "(use c (w\<lparr>clock := clock w + 3, free := free w - 1, finalizers := [Release 1]\<rparr>)
              :: ('e, 'b) exit \<times> ('eng, 'h) world) = (r, w2)"
      and "r \<noteq> Suspended" and "free w2 = free w - 1" and "finalizers w2 = [Release 1]"
    using that by (rule transaction_releases_on_exit)
  show ?thesis
    using on_exit
    by (simp add: transactionAcquirer_takes transactionAcquirer_waits
        transactionAcquirer_cancelled Scope_close_free transaction_never_leaks)
qed

theorem transactionAcquirer_holds_permit_until_scope_ends_witness:
  "(transactionAcquirer (Connection (0::nat)) (demoWorld\<lparr>interruptAt := Some 1\<rparr>)
      :: (exn, nat connection) exit \<times> (string list, nat) world)
     = (Success (Connection 0),
        demoWorld\<lparr>interruptAt := Some 1, clock := 3, free := 0, finalizers := [Release 1]\<rparr>)
   \<and> (scoped demoExpo (flatMap (transactionAcquirer (Connection (0::nat))) (\<lambda>conn. succeed ()))
        (demoWorld\<lparr>interruptAt := Some 1\<rparr>)
      :: (exn, unit) exit \<times> (string list, nat) world)
     = (Interrupted, demoWorld\<lparr>interruptAt := Some 1, clock := 4\<rparr>)
   \<and> (transactionAcquirer (Connection (0::nat)) (demoWorld\<lparr>interruptAt := Some 0\<rparr>)
      :: (exn, nat connection) exit \<times> (string list, nat) world)
     = (Interrupted, demoWorld\<lparr>interruptAt := Some 0\<rparr>)
   \<and> (transactionAcquirer (Connection (0::nat)) (demoWorld\<lparr>free := 0\<rparr>)
      :: (exn, nat connection) exit \<times> (string list, nat) world)
     = (Suspended, demoWorld\<lparr>free := 0, clock := 1\<rparr>)"
proof -
  let ?late = "demoWorld\<lparr>interruptAt := Some 1\<rparr>"
  let ?held = "demoWorld\<lparr>interruptAt := Some 1, clock := 3, free := 0, finalizers := [Release 1]\<rparr>"
  have a: "\<not> (interruptible ?late \<and> interrupted ?late) \<and> 1 \<le> free ?late"
    by (simp add: demoWorld_def interrupted_def)
  have b: "interruptible (demoWorld\<lparr>interruptAt := Some 0\<rparr>)
           \<and> interrupted (demoWorld\<lparr>interruptAt := Some 0\<rparr>)"
    by (simp add: demoWorld_def interrupted_def)
  have c: "\<not> (interruptible (demoWorld\<lparr>free := 0\<rparr>) \<and> interrupted (demoWorld\<lparr>free := 0\<rparr>))
           \<and> free (demoWorld\<lparr>free := 0\<rparr>) = 0 \<and> clock (demoWorld\<lparr>free := 0\<rparr>) = 0"
    by (simp add: demoWorld_def interrupted_def)
  have held: "?late\<lparr>clock := clock ?late + 3, free := free ?late - 1,
                     finalizers := Release 1 # finalizers ?late\<rparr> = ?held"
    and held': "?late\<lparr>clock := clock ?late + 3, free := free ?late - 1,
                      finalizers := [Release 1]\<rparr> = ?held"
    by (simp_all add: demoWorld_def)
  have use: "(succeed () ?held :: (exn, unit) exit \<times> (string list, nat) world) = (Interrupted, ?held)
             \<and> free ?held = free ?late - 1 \<and> finalizers ?held = [Release 1]"
    by (simp add: succeed_def instruction_def interrupted_def demoWorld_def)
  have after: "?held\<lparr>clock := Suc (clock ?held), free := free ?late, finalizers := finalizers ?late\<rparr>
               = demoWorld\<lparr>interruptAt := Some 1, clock := 4\<rparr>"
    by (simp add: demoWorld_def)
  have first: "(transactionAcquirer (Connection (0::nat)) ?late
      :: (exn, nat connection) exit \<times> (string list, nat) world) = (Success (Connection 0), ?held)
     \<and> (scoped demoExpo (flatMap (transactionAcquirer (Connection (0::nat))) (\<lambda>conn. succeed ())) ?late
      :: (exn, unit) exit \<times> (string list, nat) world)
       = (Interrupted, demoWorld\<lparr>interruptAt := Some 1, clock := 4\<rparr>)"
    using transactionAcquirer_holds_permit_until_scope_ends
        [where ?'e = exn and ?'a = unit and ?'b = unit and w = ?late
           and c = "Connection (0::nat)" and expo = demoExpo and db = 0 and sql = "''x''"
           and params = "[]" and transformRows = None and ex = "Success ()"
           and use = "\<lambda>conn. succeed ()" and r = Interrupted and ?w2.0 = ?held]
      a use
    unfolding held held' after
    by simp
  have second: "(transactionAcquirer (Connection (0::nat)) (demoWorld\<lparr>interruptAt := Some 0\<rparr>)
      :: (exn, nat connection) exit \<times> (string list, nat) world)
     = (Interrupted, demoWorld\<lparr>interruptAt := Some 0\<rparr>)"
    by (simp add: transactionAcquirer_cancelled[OF b])
  have third: "(transactionAcquirer (Connection (0::nat)) (demoWorld\<lparr>free := 0\<rparr>)
      :: (exn, nat connection) exit \<times> (string list, nat) world)
     = (Suspended, demoWorld\<lparr>free := 0, clock := 1\<rparr>)"
    using c by (simp add: transactionAcquirer_waits)
  show ?thesis
    using first second third by simp
qed

subsection \<open>The statement surface (C4, C5, C8, C9)\<close>

text \<open>
  C4. For every input, \<open>executeStream\<close> returns an effect that dies with the message
  \<open>executeStream not implemented\<close>: it is a defect, never a success carrying rows (empty or
  not) and never a recoverable failure. The engine is not called, and a fibre that runs
  the method ends with that defect in an unchanged world.
\<close>

theorem executeStream_always_dies:
  "(executeStream expo db sql params transformRows en :: ('e, 'v row list) exit js \<times> 'eng) =
     (Returns (Die (RuntimeException ''executeStream not implemented'')), en)
   \<and> (\<forall>rows. fst (executeStream expo db sql params transformRows en
          :: ('e, 'v row list) exit js \<times> 'eng) \<noteq> Returns (Success rows))
   \<and> (\<forall>e. fst (executeStream expo db sql params transformRows en
          :: ('e, 'v row list) exit js \<times> 'eng) \<noteq> Returns (Failure e))
   \<and> (callMethod (executeStream expo db sql params transformRows) w
        :: ('e, 'v row list) exit \<times> ('eng, 'h) world) =
       (Die (RuntimeException ''executeStream not implemented''), w)"
  by (simp add: executeStream_def Effect_dieMessage_def callMethod_def)

text \<open>
  C5, as the code has it. When the engine call throws, every statement method throws the
  same exception to its caller, synchronously, after exactly one engine call (the engine
  state is the one that call left: nothing is retried). No effect is returned, so the
  error is not a recoverable failure of the error channel; a fibre that calls the method
  ends with a defect carrying the exception, in a world where only the engine state has
  changed.
\<close>

theorem engine_error_is_thrown:
  assumes "getAllSync expo db sql params en = (Inl e, en')"
  shows "(execute expo db sql params transformRows en :: ('e, 'v row list) exit js \<times> 'eng)
           = (Throws e, en')
       \<and> (executeRaw expo db sql params en :: ('e, 'v row list) exit js \<times> 'eng) = (Throws e, en')
       \<and> (executeValues expo db sql params en :: ('e, 'v option list list) exit js \<times> 'eng)
           = (Throws e, en')
       \<and> (executeUnprepared expo db sql params transformRows en
            :: ('e, 'v row list) exit js \<times> 'eng) = (Throws e, en')
       \<and> (callMethod (execute expo db sql params transformRows) (w\<lparr>engine := en\<rparr>)
            :: ('e, 'v row list) exit \<times> ('eng, 'h) world) = (Die (Thrown e), w\<lparr>engine := en'\<rparr>)"
proof -
  have thrown: "(run expo db sql (Some params) en :: ('e, 'v row list) exit js \<times> 'eng) = (Throws e, en')"
    using assms by (simp add: run_def)
  have methods: "(execute expo db sql params transformRows en :: ('e, 'v row list) exit js \<times> 'eng)
      = (Throws e, en')"
    using thrown by (simp add: execute_def split: option.split)
  have in_fibre: "(callMethod (execute expo db sql params transformRows) (w\<lparr>engine := en\<rparr>)
      :: ('e, 'v row list) exit \<times> ('eng, 'h) world) = (Die (Thrown e), w\<lparr>engine := en'\<rparr>)"
    using methods by (simp add: callMethod_def)
  show ?thesis
    using thrown methods in_fibre
    by (simp add: executeRaw_def executeValues_def executeUnprepared_def run_def assms)
qed

theorem engine_error_is_thrown_witness:
  "(execute demoExpo 0 ''SELEC 1'' [] None [] :: (exn, jsvalue row list) exit js \<times> string list)
     = (Throws (JsError ''syntax error''), [''SELEC 1''])
   \<and> (callMethod (execute demoExpo 0 ''SELEC 1'' [] None) demoWorld
        :: (exn, jsvalue row list) exit \<times> (string list, nat) world)
     = (Die (Thrown (JsError ''syntax error'')), demoWorld\<lparr>engine := [''SELEC 1'']\<rparr>)"
proof -
  have g: "getAllSync demoExpo 0 ''SELEC 1'' [] [] = (Inl (JsError ''syntax error''), [''SELEC 1''])"
    by (simp add: demoExpo_def)
  have w: "demoWorld\<lparr>engine := []\<rparr> = demoWorld"
    by (simp add: demoWorld_def)
  show ?thesis
    using engine_error_is_thrown[OF g, where ?'e = exn, of None demoWorld] by (simp add: w)
qed

text \<open>
  C5 as the spec states it fails: on the sample engine a malformed statement does not come
  back as a recoverable failure; the method throws, and the fibre that called it ends
  with a defect.
\<close>

theorem engine_error_not_recoverable_counterexample:
  "fst (execute demoExpo 0 ''SELEC 1'' [] None []
         :: (exn, jsvalue row list) exit js \<times> string list)
     \<noteq> Returns (Failure (JsError ''syntax error''))
   \<and> fst (execute demoExpo 0 ''SELEC 1'' [] None []
         :: (exn, jsvalue row list) exit js \<times> string list) = Throws (JsError ''syntax error'')
   \<and> fst (callMethod (execute demoExpo 0 ''SELEC 1'' [] None) demoWorld
         :: (exn, jsvalue row list) exit \<times> (string list, nat) world)
       = Die (Thrown (JsError ''syntax error''))"
  by (simp add: execute_def run_def demoExpo_def callMethod_def demoWorld_def)

text \<open>
  C8. On every statement, parameter list and optional row transform, and in every engine
  state, \<open>executeUnprepared\<close> does what \<open>execute\<close> does: the same outcome (returned effect or
  thrown exception) and the same engine state.
\<close>

theorem executeUnprepared_same_as_execute:
  "(executeUnprepared expo db sql params transformRows en :: ('e, 'v row list) exit js \<times> 'eng) =
     execute expo db sql params transformRows en"
  by (simp add: executeUnprepared_def)

text \<open>
  C9. When the engine returns no row, \<open>executeValues\<close> yields the empty list. Otherwise it
  yields one tuple per row, in the rows' order, and every tuple is its row read at the keys
  of the first row, in the first row's order: a later row's own key order and extra keys
  play no part, and at a key it lacks a row yields what the property read yields there
  (the inherited member if the prototype has one of that name, \<open>undefined\<close> if not).
\<close>

theorem executeValues_column_order:
  assumes "getAllSync expo db sql params en = (Inr results, en')"
  shows "(results = [] \<longrightarrow>
            (executeValues expo db sql params en :: ('e, 'v option list list) exit js \<times> 'eng)
              = (Returns (Success []), en'))
       \<and> (results \<noteq> [] \<longrightarrow>
            (executeValues expo db sql params en :: ('e, 'v option list list) exit js \<times> 'eng) =
              (Returns (Success
                 (map (\<lambda>row. map (\<lambda>column.
                          case map_of row column of
                            Some v \<Rightarrow> Some v
                          | None \<Rightarrow> map_of (rowPrototype expo) column)
                        (map fst (hd results))) results)), en'))"
  using assms
  by (cases results)
     (simp_all add: executeValues_def run_def Effect_succeed_def valuesOf_def Let_def
        getProperty_def Object_keys_def)

theorem executeValues_column_order_witness:
  "(executeValues demoExpo 0 ''SELECT a, b FROM t'' [] []
      :: (exn, jsvalue option list list) exit js \<times> string list) =
     (Returns (Success [[Some (Number 1), Some (Number 2)],
                        [Some (Number 3), Some (Number 4)],
                        [Some (Number 6), None]]),
      [''SELECT a, b FROM t''])
   \<and> (executeValues demoExpo 0 ''SELECT 1 AS toString'' [] []
      :: (exn, jsvalue option list list) exit js \<times> string list) =
     (Returns (Success [[Some (Number 1)], [Some (Function ''toString'')]]),
      [''SELECT 1 AS toString''])"
proof -
  have g: "getAllSync demoExpo 0 ''SELECT a, b FROM t'' [] []
      = (Inr demoRows, [''SELECT a, b FROM t''])"
    by (simp add: demoExpo_def)
  have h: "getAllSync demoExpo 0 ''SELECT 1 AS toString'' [] []
      = (Inr demoRowsInherited, [''SELECT 1 AS toString''])"
    by (simp add: demoExpo_def)
  have p: "rowPrototype demoExpo = [(''constructor'', Function ''Object''),
        (''toString'', Function ''toString''), (''valueOf'', Function ''valueOf'')]"
    by (simp add: demoExpo_def)
  have first: "(executeValues demoExpo 0 ''SELECT a, b FROM t'' [] []
      :: (exn, jsvalue option list list) exit js \<times> string list) =
     (Returns (Success [[Some (Number 1), Some (Number 2)],
                        [Some (Number 3), Some (Number 4)],
                        [Some (Number 6), None]]),
      [''SELECT a, b FROM t''])"
    using executeValues_column_order[OF g, where ?'e = exn]
    by (simp add: demoRows_def p)
  have second: "(executeValues demoExpo 0 ''SELECT 1 AS toString'' [] []
      :: (exn, jsvalue option list list) exit js \<times> string list) =
     (Returns (Success [[Some (Number 1)], [Some (Function ''toString'')]]),
      [''SELECT 1 AS toString''])"
    using executeValues_column_order[OF h, where ?'e = exn]
    by (simp add: demoRowsInherited_def p)
  show ?thesis
    using first second by simp
qed

subsection \<open>Opening and closing (C6, C7)\<close>

text \<open>
  C6. While the module's flag says that a handle is live, opening is skipped: the effect
  succeeds, the world is unchanged (the engine is not asked for a handle, nothing is
  registered), and the caller gets \<open>undefined\<close>, not a connection. The flag says so after
  every open that yielded a connection, so the second of two opens is skipped.
\<close>

theorem second_open_is_skipped:
  "(truthy (dbRef w) \<longrightarrow>
      (makeConnection expo options w :: ('e, 'h connection option) exit \<times> ('eng, 'h) world)
        = (Success None, w))
   \<and> ((makeConnection expo options w :: ('e, 'h connection option) exit \<times> ('eng, 'h) world)
        = (Success (Some conn), w1) \<longrightarrow>
      (makeConnection expo options' w1 :: ('e, 'h connection option) exit \<times> ('eng, 'h) world)
        = (Success None, w1))"
proof -
  have skip: "(makeConnection expo opts w0 :: ('e, 'h connection option) exit \<times> ('eng, 'h) world)
      = (Success None, w0)" if "truthy (dbRef w0)" for opts and w0 :: "('eng, 'h) world"
    using that by (simp add: makeConnection_def)
  show ?thesis
    using skip makeConnection_sets_flag by blast
qed

theorem second_open_is_skipped_witness:
  "(makeConnection demoExpo demoConfig demoWorld
      :: (exn, nat connection option) exit \<times> (string list, nat) world)
     = (Success (Some (Connection 0)),
        demoWorld\<lparr>dbRef := Some True, engine := [''open''], finalizers := [CloseDatabase 0],
                   clock := 2\<rparr>)
   \<and> (makeConnection demoExpo demoConfig
        (demoWorld\<lparr>dbRef := Some True, engine := [''open''], finalizers := [CloseDatabase 0],
                   clock := 2\<rparr>)
      :: (exn, nat connection option) exit \<times> (string list, nat) world)
     = (Success None,
        demoWorld\<lparr>dbRef := Some True, engine := [''open''], finalizers := [CloseDatabase 0],
                   clock := 2\<rparr>)"
proof -
  have first: "(makeConnection demoExpo demoConfig demoWorld
      :: (exn, nat connection option) exit \<times> (string list, nat) world)
     = (Success (Some (Connection 0)),
        demoWorld\<lparr>dbRef := Some True, engine := [''open''], finalizers := [CloseDatabase 0],
                   clock := 2\<rparr>)"
    by (simp add: makeConnection_def demoWorld_def demoExpo_def demoConfig_def truthy_def
        Effect_addFinalizer_def permit_defs)
  show ?thesis
    using second_open_is_skipped
      [where ?'e = exn, of demoWorld demoExpo demoConfig "Connection 0"
        "demoWorld\<lparr>dbRef := Some True, engine := [''open''], finalizers := [CloseDatabase 0],
                   clock := 2\<rparr>" demoConfig]
      first
    by simp
qed

text \<open>
  C7. The closing thunk never throws, whatever \<open>closeSync\<close> does, and leaves the flag
  \<open>false\<close>; run a second time it does the same. Run as the scope's finalizer it succeeds.
  After it the flag is falsy, so the next open is not skipped.
\<close>

theorem close_is_best_effort:
  "fst (closeDatabase expo db w) = Returns ()
   \<and> dbRef (snd (closeDatabase expo db w)) = Some False
   \<and> fst (closeDatabase expo db (snd (closeDatabase expo db w))) = Returns ()
   \<and> dbRef (snd (closeDatabase expo db (snd (closeDatabase expo db w)))) = Some False
   \<and> fst (withInterruptible False (finalizerEffect expo (CloseDatabase db)) w
        :: ('e, unit) exit \<times> ('eng, 'h) world) = Success ()
   \<and> \<not> truthy (dbRef (snd (closeDatabase expo db w)))
   \<and> fst (makeConnection expo options (snd (closeDatabase expo db w))
        :: ('e, 'h connection option) exit \<times> ('eng, 'h) world) \<noteq> Success None"
proof -
  have thunk: "fst (closeDatabase expo db w0) = Returns ()
      \<and> dbRef (snd (closeDatabase expo db w0)) = Some False" for w0 :: "('eng, 'h) world"
    by (simp add: closeDatabase_def Let_def split: prod.split sum.split)
  have falsy: "\<not> truthy (dbRef (snd (closeDatabase expo db w)))"
    using thunk[of w] by (simp add: truthy_def)
  have as_finalizer: "fst (withInterruptible False (finalizerEffect expo (CloseDatabase db)) w
        :: ('e, unit) exit \<times> ('eng, 'h) world) = Success ()"
    by (simp add: withInterruptible_def Effect_sync_def instruction_def closeDatabase_def
        Let_def split: prod.split sum.split)
  show ?thesis
    using thunk[of w] thunk[of "snd (closeDatabase expo db w)"] falsy as_finalizer
      makeConnection_after_close[OF falsy]
    by simp
qed

theorem close_is_best_effort_witness:
  "closeDatabase demoExpo 0 (demoWorld\<lparr>dbRef := Some True\<rparr>)
     = (Returns (), demoWorld\<lparr>dbRef := Some False, engine := [''close'']\<rparr>)"
proof -
  have "closeDatabase demoExpo 0 (demoWorld\<lparr>dbRef := Some True\<rparr>)
     = (Returns (), demoWorld\<lparr>dbRef := Some False, engine := [''close'']\<rparr>)"
    by (simp add: closeDatabase_def demoExpo_def demoWorld_def)
  then show ?thesis
    using close_is_best_effort[of demoExpo 0 "demoWorld\<lparr>dbRef := Some True\<rparr>"]
    by simp
qed

subsection \<open>The casing transforms (C10)\<close>

text \<open>
  C10. On a string of ASCII letters that starts with a lower-case letter (so it has no
  underscore, hyphen or digit), \<open>camelToSnake\<close> followed by \<open>snakeToCamel\<close> gives the string
  back.
\<close>

theorem camelToSnake_snakeToCamel_roundtrip:
  assumes "str \<noteq> []" and "isLower (hd str)" and "\<forall>c \<in> set str. isAsciiLetter c"
  shows "snakeToCamel (camelToSnake str) = str"
  using assms(3)
  by (simp add: snakeToCamel_def toLowerCase_camelToSnake replaceSeparatorLetter_camelToSnake)

theorem camelToSnake_snakeToCamel_roundtrip_witness:
  "snakeToCamel (camelToSnake ''fooBarBAZ'') = ''fooBarBAZ''
   \<and> camelToSnake ''fooBarBAZ'' = ''foo_bar_b_a_z''"
proof -
  have letters: "\<forall>c \<in> set ''fooBarBAZ''. isAsciiLetter c"
    by (simp add: isAsciiLetter_def isUpper_def isLower_def)
  have lower: "isLower (hd ''fooBarBAZ'')"
    by (simp add: isLower_def)
  have "snakeToCamel (camelToSnake ''fooBarBAZ'') = ''fooBarBAZ''"
    using camelToSnake_snakeToCamel_roundtrip[OF _ lower letters] by simp
  moreover have "camelToSnake ''fooBarBAZ'' = ''foo_bar_b_a_z''"
    by code_simp
  ultimately show ?thesis by simp
qed

end
